theory Spec2Isabelle
  imports Main
begin

section \<open>Row selectors of a frame: the i-node family of \<^verbatim>\<open>c/expr/i_node.cc\<close>\<close>

text \<open>
  The theory embeds the selector nodes of \<^verbatim>\<open>c/expr/i_node.cc\<close>: the factory
  \<^verbatim>\<open>_make\<close>, the constructors of the node classes, their \<^verbatim>\<open>post_init_check\<close> and
  their \<^verbatim>\<open>execute\<close>. Every \<^verbatim>\<open>throw\<close> of the source is an \<open>Inl\<close> value, a returned
  \<^verbatim>\<open>nullptr\<close> is \<open>None\<close>.

  Integers of type \<^verbatim>\<open>int64_t\<close> are values of \<open>int\<close>. Conversions between integer
  types (\<^verbatim>\<open>static_cast\<close>) are defined in C++ and wrap; they are written out below.
  Division of integers truncates towards zero in C++, unlike \<open>div\<close>. Signed overflow is
  undefined in C++; where the constructor and \<^verbatim>\<open>execute\<close> of \<^verbatim>\<open>multislice_in\<close>
  compute with the bounds of a range or a slice, which can be any \<^verbatim>\<open>int64_t\<close>, the
  model takes the two's complement result of the compiled code: every sum, difference,
  product, negation and quotient is reduced to \<^verbatim>\<open>int64_t\<close>. The arithmetic of
  \<^verbatim>\<open>onerow_in\<close> is exact: it cannot overflow on a frame whose row count
  \<^verbatim>\<open>int64_t\<close> holds.
\<close>

subsection \<open>Machine integers\<close>

definition to_int64 :: "int \<Rightarrow> int" where
  "to_int64 x = (x + 2 ^ 63) mod 2 ^ 64 - 2 ^ 63"

definition to_int32 :: "int \<Rightarrow> int" where
  "to_int32 x = (x + 2 ^ 31) mod 2 ^ 32 - 2 ^ 31"

definition to_size_t :: "int \<Rightarrow> nat" where
  "to_size_t x = nat (x mod 2 ^ 64)"

text \<open>The quotient of \<^verbatim>\<open>a / b\<close> on C++ integers, for \<open>b \<noteq> 0\<close>.\<close>

definition cdiv :: "int \<Rightarrow> int \<Rightarrow> int" where
  "cdiv a b = sgn a * sgn b * (\<bar>a\<bar> div \<bar>b\<bar>)"

text \<open>
  The operations of \<^verbatim>\<open>int64_t\<close> with the result reduced to \<^verbatim>\<open>int64_t\<close>. The one
  quotient that leaves the range, of the least \<^verbatim>\<open>int64_t\<close> by \<open>-1\<close>, stops the
  compiled code; the model reduces it like the others.
\<close>

definition add64 :: "int \<Rightarrow> int \<Rightarrow> int" where
  "add64 a b = to_int64 (a + b)"

definition sub64 :: "int \<Rightarrow> int \<Rightarrow> int" where
  "sub64 a b = to_int64 (a - b)"

definition mul64 :: "int \<Rightarrow> int \<Rightarrow> int" where
  "mul64 a b = to_int64 (a * b)"

definition neg64 :: "int \<Rightarrow> int" where
  "neg64 a = to_int64 (- a)"

definition div64 :: "int \<Rightarrow> int \<Rightarrow> int" where
  "div64 a b = to_int64 (cdiv a b)"

subsection \<open>Errors\<close>

text \<open>
  One constructor of \<open>msg\<close> for each \<^verbatim>\<open>throw\<close> of the file, with the numbers its message
  prints. The printed form of a Python object (\<^verbatim>\<open><< src\<close>, \<^verbatim>\<open><< elem\<close>, \<^verbatim>\<open><< ss\<close>) is
  left out of the message. The last constructor, \<open>Column_not_selector\<close>, is not of the
  file: it is the error of the row index constructor below.
\<close>

datatype SType = VOID | BOOL | INT8 | INT16 | INT32 | INT64 | FLOAT32 | FLOAT64
  | STR32 | STR64 | OBJ

datatype LType = LT_MU | LT_BOOL | LT_INT | LT_REAL | LT_STRING | LT_OBJECT

datatype msg =
    Row_invalid int int
  | Range_cannot_apply int int int nat
  | Filter_not_bool SType
  | Frame_ncols nat
  | Frame_stype SType
  | Bool_column_nrows nat nat
  | Negative_indices int
  | Index_too_large int nat
  | Np_shape "nat list"
  | Np_dtype string
  | Wraparound_range int int int
  | Slice_not_integer
  | Zero_step_slice
  | Invalid_item nat
  | Min_nrows nat
  | Not_integer_valued
  | Boolean_selector
  | Column_not_selector SType

text \<open>
  \<open>ValueError\<close> and \<open>TypeError\<close> are the two exceptions the file throws.
  \<open>ArrayMismatch total written\<close> is no exception of the source: it is the outcome of
  \<^verbatim>\<open>multislice_in::execute\<close> when the array was sized for \<open>total\<close> cells and the
  filling loop wrote \<open>written\<close> of them, a different number. The C++ then has written
  past the array or has left cells unwritten, and has no defined result.
\<close>

datatype exn = ValueError msg | TypeError msg | ArrayMismatch nat nat

definition raises :: "exn + 'a \<Rightarrow> bool" where
  "raises r = (case r of Inl e \<Rightarrow> True | Inr v \<Rightarrow> False)"

subsection \<open>Columns, frames, row indices and the workframe\<close>

text \<open>
  Modelled from the spec: the types \<^verbatim>\<open>SType\<close>, \<^verbatim>\<open>LType\<close>, \<^verbatim>\<open>Column\<close>,
  \<^verbatim>\<open>DataTable\<close>, \<^verbatim>\<open>RowIndex\<close> and \<^verbatim>\<open>workframe\<close> are declared outside
  \<^verbatim>\<open>i_node.cc\<close>. A column is modelled by what a selector reads of it: a boolean column by
  its mask, an integer column by its storage type and its values, any other column by its
  storage type and its row count. The spec gives a selector column values only, and no
  meaning to a missing value (NA) in one: the model has none.
\<close>

datatype int_stype = I8 | I16 | I32 | I64

datatype Column =
    BoolColumn "bool list"
  | IntColumn int_stype "int list"
  | OtherColumn SType nat

fun stype :: "Column \<Rightarrow> SType" where
  "stype (BoolColumn bs) = BOOL"
| "stype (IntColumn I8 xs) = INT8"
| "stype (IntColumn I16 xs) = INT16"
| "stype (IntColumn I32 xs) = INT32"
| "stype (IntColumn I64 xs) = INT64"
| "stype (OtherColumn st n) = st"

fun col_nrows :: "Column \<Rightarrow> nat" where
  "col_nrows (BoolColumn bs) = length bs"
| "col_nrows (IntColumn w xs) = length xs"
| "col_nrows (OtherColumn st n) = n"

fun ltype :: "SType \<Rightarrow> LType" where
  "ltype VOID = LT_MU"
| "ltype BOOL = LT_BOOL"
| "ltype INT8 = LT_INT"
| "ltype INT16 = LT_INT"
| "ltype INT32 = LT_INT"
| "ltype INT64 = LT_INT"
| "ltype FLOAT32 = LT_REAL"
| "ltype FLOAT64 = LT_REAL"
| "ltype STR32 = LT_STRING"
| "ltype STR64 = LT_STRING"
| "ltype OBJ = LT_OBJECT"

text \<open>
  Modelled from the spec: \<^verbatim>\<open>min_int64\<close> and \<^verbatim>\<open>max_int64\<close> are methods of
  \<^verbatim>\<open>Column\<close>, outside the source; the spec calls their results the column's minimum
  value and its maximum value, and has a selector column refused for a value of it that
  lies outside the range. A column without values has no such value: the model gives it
  the greatest \<^verbatim>\<open>int64_t\<close> for its minimum and the least for its maximum, the neutral
  values of minimum and maximum. What the methods of the source return for such a column
  is not stated. The values of a boolean column are 0 and 1.
\<close>

fun col_values :: "Column \<Rightarrow> int list" where
  "col_values (IntColumn w xs) = xs"
| "col_values (BoolColumn bs) = map of_bool bs"
| "col_values (OtherColumn st n) = []"

definition min_int64 :: "Column \<Rightarrow> int" where
  "min_int64 col =
     (if col_values col = [] then 2 ^ 63 - 1 else Min (set (col_values col)))"

definition max_int64 :: "Column \<Rightarrow> int" where
  "max_int64 col =
     (if col_values col = [] then - (2 ^ 63) else Max (set (col_values col)))"

datatype DataTable = DataTable (columns: "Column list")

definition ncols :: "DataTable \<Rightarrow> nat" where
  "ncols dt = length (columns dt)"

text \<open>
  A row index is ALL, ARITHMETIC(start, count, step) with the three \<^verbatim>\<open>size_t\<close> arguments
  of its constructor, or an ARRAY of 32-bit positions, in which \<open>-1\<close> is the marker of a
  null row.
\<close>

datatype RowIndex =
    RI_ALL
  | RI_ARITHMETIC nat nat nat
  | RI_ARRAY "int list"

text \<open>
  Modelled from the spec: the constructor of a row index from a column, outside the
  source. A boolean column gives the positions where it is true, an integer column gives
  its values themselves. For a column of another type the spec defines no index; the model
  has a type error there.
\<close>

fun RowIndex_of_column :: "Column \<Rightarrow> exn + RowIndex" where
  "RowIndex_of_column (BoolColumn bs) =
     Inr (RI_ARRAY (map int (filter (\<lambda>i. bs ! i) [0..<length bs])))"
| "RowIndex_of_column (IntColumn w xs) = Inr (RI_ARRAY xs)"
| "RowIndex_of_column (OtherColumn st n) = Inl (TypeError (Column_not_selector st))"

text \<open>
  Modelled from the spec: the workframe holds the row count of the frame and the row index
  accumulated so far; \<^verbatim>\<open>apply_rowindex\<close> composes a new index with it. Composition
  belongs to \<^verbatim>\<open>RowIndex\<close>, outside the source, so the model keeps the indices handed to
  \<^verbatim>\<open>apply_rowindex\<close> in call order. A fresh workframe has none (the selection ALL);
  after one call the accumulated index is the index of that call.
\<close>

record workframe =
  wf_nrows :: nat
  wf_applied :: "RowIndex list"

definition fresh_workframe :: "nat \<Rightarrow> workframe" where
  "fresh_workframe n = \<lparr>wf_nrows = n, wf_applied = []\<rparr>"

definition apply_rowindex :: "workframe \<Rightarrow> RowIndex \<Rightarrow> workframe" where
  "apply_rowindex wk ri = wk\<lparr>wf_applied := wf_applied wk @ [ri]\<rparr>"

subsection \<open>\<^verbatim>\<open>onerow_in\<close>\<close>

text \<open>
  \<^verbatim>\<open>post_init_check\<close> updates the field \<^verbatim>\<open>irow\<close> of the node; the model returns the
  new \<^verbatim>\<open>irow\<close>.
\<close>

definition onerow_in_post_init_check :: "int \<Rightarrow> workframe \<Rightarrow> exn + int" where
  "onerow_in_post_init_check irow wk =
     (let inrows = to_int64 (int (wf_nrows wk)) in
      if irow < - inrows \<or> irow \<ge> inrows then Inl (ValueError (Row_invalid irow inrows))
      else Inr (if irow < 0 then irow + inrows else irow))"

definition onerow_in_execute :: "int \<Rightarrow> workframe \<Rightarrow> exn + workframe" where
  "onerow_in_execute irow wk =
     (let start = to_size_t irow in Inr (apply_rowindex wk (RI_ARITHMETIC start 1 1)))"

subsection \<open>\<^verbatim>\<open>slice_in\<close>\<close>

text \<open>
  \<^verbatim>\<open>py::oslice::normalize\<close> and \<^verbatim>\<open>py::orange::normalize\<close> are outside the source and
  are parameters of the model: each gives start, count and step for a row count and a
  triple, and the one of ranges gives \<open>None\<close> where the C++ function returns false.
\<close>

type_synonym oslice_normalize = "nat \<Rightarrow> int \<Rightarrow> int \<Rightarrow> int \<Rightarrow> nat \<times> nat \<times> nat"
type_synonym orange_normalize = "nat \<Rightarrow> int \<Rightarrow> int \<Rightarrow> int \<Rightarrow> (nat \<times> nat \<times> nat) option"

record slice_in =
  istart :: int
  istop :: int
  istep :: int
  is_slice :: bool

definition slice_in_execute ::
  "oslice_normalize \<Rightarrow> orange_normalize \<Rightarrow> slice_in \<Rightarrow> workframe \<Rightarrow> exn + workframe" where
  "slice_in_execute slice_norm range_norm nd wk =
     (let nrows = wf_nrows wk in
      if is_slice nd then
        (case slice_norm nrows (istart nd) (istop nd) (istep nd) of
           (start, cnt, step) \<Rightarrow> Inr (apply_rowindex wk (RI_ARITHMETIC start cnt step)))
      else
        (case range_norm nrows (istart nd) (istop nd) (istep nd) of
           None \<Rightarrow> Inl (ValueError (Range_cannot_apply (istart nd) (istop nd) (istep nd) nrows))
         | Some (start, cnt, step) \<Rightarrow> Inr (apply_rowindex wk (RI_ARITHMETIC start cnt step))))"

subsection \<open>\<^verbatim>\<open>expr_in\<close>\<close>

text \<open>
  The expression evaluator is outside the source. An expression is modelled by its two
  answers for the frame at hand: the type \<^verbatim>\<open>resolve\<close> reports and the column
  \<^verbatim>\<open>evaluate_eager\<close> computes.
\<close>

record base_expr =
  expr_resolve :: SType
  expr_evaluate_eager :: Column

definition expr_in_execute :: "base_expr \<Rightarrow> workframe \<Rightarrow> exn + workframe" where
  "expr_in_execute expr wk =
     (let st = expr_resolve expr in
      if st \<noteq> BOOL then Inl (TypeError (Filter_not_bool st))
      else (case RowIndex_of_column (expr_evaluate_eager expr) of
              Inl e \<Rightarrow> Inl e
            | Inr res \<Rightarrow> Inr (apply_rowindex wk res)))"

subsection \<open>\<^verbatim>\<open>frame_in\<close>\<close>

definition frame_in_ctor :: "DataTable \<Rightarrow> exn + DataTable" where
  "frame_in_ctor dt =
     (if ncols dt \<noteq> 1 then Inl (ValueError (Frame_ncols (ncols dt)))
      else let st = stype (columns dt ! 0) in
        if \<not> (st = BOOL \<or> ltype st = LT_INT) then Inl (TypeError (Frame_stype st))
        else Inr dt)"

definition frame_in_post_init_check :: "DataTable \<Rightarrow> workframe \<Rightarrow> exn + unit" where
  "frame_in_post_init_check dt wk =
     (let col = columns dt ! 0; nrows = wf_nrows wk in
      if stype col = BOOL then
        (if col_nrows col \<noteq> nrows then Inl (ValueError (Bool_column_nrows (col_nrows col) nrows))
         else Inr ())
      else
        (let mn = min_int64 col; mx = max_int64 col in
         if mn < - 1 then Inl (ValueError (Negative_indices mn))
         else if mx \<ge> to_int64 (int nrows) then Inl (ValueError (Index_too_large mx nrows))
         else Inr ()))"

definition frame_in_execute :: "DataTable \<Rightarrow> workframe \<Rightarrow> exn + workframe" where
  "frame_in_execute dt wk =
     (case RowIndex_of_column (columns dt ! 0) of
        Inl e \<Rightarrow> Inl e
      | Inr ri \<Rightarrow> Inr (apply_rowindex wk ri))"

subsection \<open>The selector nodes\<close>

text \<open>The kinds \<^verbatim>\<open>INT\<close>, \<^verbatim>\<open>SLICE\<close> and \<^verbatim>\<open>RANGE\<close> of an item.\<close>

datatype item_kind = K_INT | K_SLICE | K_RANGE

record item =
  item_start :: int
  item_stop :: int
  item_step :: int
  item_kind :: item_kind

record multislice_in =
  items :: "item list"
  min_nrows :: nat

datatype i_node =
    Allrows_in
  | Onerow_in int
  | Slice_in slice_in
  | Expr_in base_expr
  | Frame_in DataTable
  | Multislice_in multislice_in

subsection \<open>Python objects\<close>

text \<open>
  Modelled from the spec: the Python layer (\<^verbatim>\<open>py::robj\<close>, \<^verbatim>\<open>py::oslice\<close>,
  \<^verbatim>\<open>py::orange\<close>) is outside the source. A selector is modelled by the first test of
  the factory that it passes, with what the factory then reads of it: a slice
  (\<^verbatim>\<open>is_slice\<close>) with its three fields, each absent, an integer or another object; a
  filter expression (\<^verbatim>\<open>is_PyBaseExpr\<close>); a frame (\<^verbatim>\<open>is_frame\<close>); an integer
  (\<^verbatim>\<open>is_int\<close>, which a boolean does not pass), a value \<^verbatim>\<open>to_int64_strict\<close> accepts;
  None and Ellipsis (\<^verbatim>\<open>is_none\<close>, \<^verbatim>\<open>is_ellipsis\<close>); a numpy array
  (\<^verbatim>\<open>is_numpy_array\<close>); a range (\<^verbatim>\<open>is_range\<close>); any other iterable
  (\<^verbatim>\<open>is_iterable\<close>) with its elements; a boolean (\<^verbatim>\<open>is_bool\<close>); and \<open>PyOther\<close>,
  an object that passes none of the ten tests, given by its printed form (a float, as
  \<open>1.5\<close>). The elements of an iterable are objects of the same kind; the three tests of
  the constructor of \<^verbatim>\<open>multislice_in\<close> are among the ten.

  A numpy array is modelled by what \<^verbatim>\<open>_from_nparray\<close> asks of it: its shape, the name
  of its element dtype, and \<open>np_Frame\<close>, what the constructor of \<^verbatim>\<open>Frame\<close> returns for
  the array once it is one-dimensional.
\<close>

datatype slice_arg = SNone | SInt int | SOther

record nparray =
  np_shape :: "nat list"
  np_dtype :: string
  np_Frame :: "exn + DataTable"

datatype pyobj =
    PySlice slice_arg slice_arg slice_arg
  | PyBaseExpr base_expr
  | PyFrame DataTable
  | PyInt int
  | PyNone
  | PyEllipsis
  | PyNumpy nparray
  | PyRange int int int
  | PyIterable "pyobj list"
  | PyBool bool
  | PyOther string

text \<open>
  Modelled from the spec: the accessors of a slice give the marker \<open>oslice_NA\<close> for an
  absent field; \<open>oslice_MAX\<close> is the boundary a missing bound defaults to. The model takes
  the least and the greatest \<^verbatim>\<open>int64_t\<close>.
\<close>

definition oslice_NA :: int where
  "oslice_NA = - (2 ^ 63)"

definition oslice_MAX :: int where
  "oslice_MAX = 2 ^ 63 - 1"

fun slice_field :: "slice_arg \<Rightarrow> int" where
  "slice_field SNone = oslice_NA"
| "slice_field (SInt v) = v"
| "slice_field SOther = oslice_NA"

fun slice_arg_numeric :: "slice_arg \<Rightarrow> bool" where
  "slice_arg_numeric SOther = False"
| "slice_arg_numeric a = True"

definition is_trivial :: "slice_arg \<Rightarrow> slice_arg \<Rightarrow> slice_arg \<Rightarrow> bool" where
  "is_trivial a b c = (a = SNone \<and> b = SNone \<and> c = SNone)"

definition is_numeric :: "slice_arg \<Rightarrow> slice_arg \<Rightarrow> slice_arg \<Rightarrow> bool" where
  "is_numeric a b c = (slice_arg_numeric a \<and> slice_arg_numeric b \<and> slice_arg_numeric c)"

subsection \<open>\<^verbatim>\<open>_from_nparray\<close>\<close>

text \<open>
  \<^verbatim>\<open>std::string::compare(pos, len, s)\<close> compares the substring of at most \<open>len\<close>
  characters from \<open>pos\<close> with \<open>s\<close>, character by character and then by length; it
  gives a negative number, zero or a positive number. \<open>pos\<close> is 0 at both calls, never
  past the end of the string.
\<close>

fun lex_compare :: "string \<Rightarrow> string \<Rightarrow> int" where
  "lex_compare [] [] = 0"
| "lex_compare [] (y # ys) = - 1"
| "lex_compare (x # xs) [] = 1"
| "lex_compare (x # xs) (y # ys) =
     (if (of_char x :: nat) < of_char y then - 1
      else if (of_char y :: nat) < of_char x then 1
      else lex_compare xs ys)"

definition string_compare :: "string \<Rightarrow> nat \<Rightarrow> nat \<Rightarrow> string \<Rightarrow> int" where
  "string_compare str pos len s = lex_compare (take len (drop pos str)) s"

text \<open>
  The squeeze of a two-dimensional array with an axis of length 1: \<^verbatim>\<open>reshape\<close> gives
  the same array with the shape \<open>[dim0 * dim1]\<close>.
\<close>

definition squeeze :: "nparray \<Rightarrow> nparray" where
  "squeeze src =
     (if length (np_shape src) = 2 then
        (let dim0 = np_shape src ! 0; dim1 = np_shape src ! 1 in
         if dim0 = 1 \<or> dim1 = 1 then src\<lparr>np_shape := [(dim0 * dim1) mod 2 ^ 64]\<rparr> else src)
      else src)"

text \<open>
  The two flags take the result of \<^verbatim>\<open>compare\<close> as a \<^verbatim>\<open>bool\<close>: true when it is not
  zero.
\<close>

definition from_nparray :: "nparray \<Rightarrow> exn + i_node" where
  "from_nparray src0 =
     (let src = squeeze src0; shape = np_shape src; ndims = length shape in
      if ndims \<noteq> 1 then Inl (ValueError (Np_shape shape))
      else
        (let dtype_str = np_dtype src;
             is_bool = (string_compare dtype_str 0 4 ''bool'' \<noteq> 0);
             is_int = (string_compare dtype_str 0 3 ''int'' \<noteq> 0) in
         if \<not> (is_bool \<or> is_int) then Inl (TypeError (Np_dtype dtype_str))
         else
           (case np_Frame src of
              Inl e \<Rightarrow> Inl e
            | Inr frame \<Rightarrow>
                (case frame_in_ctor frame of Inl e \<Rightarrow> Inl e | Inr dt \<Rightarrow> Inr (Frame_in dt)))))"

subsection \<open>\<^verbatim>\<open>multislice_in\<close>: the constructor\<close>

text \<open>
  The state of the constructor's loop: the counter \<^verbatim>\<open>i\<close>, \<^verbatim>\<open>max_nrows\<close> and the
  items pushed so far. \<open>multislice_elem\<close> is one pass of the loop body. At an empty range
  the body leaves by \<^verbatim>\<open>continue\<close>, before \<^verbatim>\<open>i++\<close>: the state is unchanged.
\<close>

record loop_state =
  loop_i :: nat
  max_nrows :: nat
  loop_items :: "item list"

definition push_item :: "loop_state \<Rightarrow> int \<Rightarrow> int \<Rightarrow> int \<Rightarrow> item_kind \<Rightarrow> loop_state" where
  "push_item st start stop step k =
     st\<lparr>loop_items := loop_items st @
           [\<lparr>item_start = start, item_stop = stop, item_step = step, item_kind = k\<rparr>],
        loop_i := loop_i st + 1\<rparr>"

definition range_count :: "int \<Rightarrow> int \<Rightarrow> int \<Rightarrow> int" where
  "range_count start stop step =
     (if step > 0 then div64 (sub64 (add64 (sub64 stop start) step) 1) step
      else div64 (sub64 (sub64 (sub64 start stop) step) 1) (neg64 step))"

fun multislice_elem :: "loop_state \<Rightarrow> pyobj \<Rightarrow> exn + loop_state" where
  "multislice_elem st (PyInt v) =
     (let n = (if v \<ge> 0 then to_size_t (add64 v 1) else to_size_t (neg64 v)) in
      Inr (push_item (st\<lparr>max_nrows := (if n > max_nrows st then n else max_nrows st)\<rparr>)
             v 0 0 K_INT))"
| "multislice_elem st (PyRange start stop step) =
     (let cnt = range_count start stop step in
      if cnt \<le> 0 then Inr st
      else
        (let lst = add64 start (mul64 (sub64 cnt 1) step) in
         if (start \<ge> 0) \<noteq> (lst \<ge> 0) then Inl (ValueError (Wraparound_range start stop step))
         else
           (let stop' = add64 start (mul64 cnt step);
                n1 = to_size_t (if start > 0 then add64 start 1 else neg64 start);
                n2 = to_size_t (if lst > 0 then add64 lst 1 else neg64 lst);
                m1 = (if n1 > max_nrows st then n1 else max_nrows st);
                m2 = (if n2 > m1 then n2 else m1) in
            Inr (push_item (st\<lparr>max_nrows := m2\<rparr>) start stop' step K_RANGE))))"
| "multislice_elem st (PySlice a b c) =
     (if \<not> is_numeric a b c then Inl (TypeError Slice_not_integer)
      else
        (let start = slice_field a; stop = slice_field b; step = slice_field c in
         if step = 0 then
           (if stop < 0 \<or> start = oslice_NA \<or> stop = oslice_NA
            then Inl (ValueError Zero_step_slice)
            else Inr (push_item st start stop step K_SLICE))
         else
           (let step1 = (if step = oslice_NA then 1 else step);
                start1 = (if start = oslice_NA then (if step1 > 0 then 0 else oslice_MAX)
                          else start);
                stop1 = (if stop = oslice_NA then (if step1 > 0 then oslice_MAX else - oslice_MAX)
                         else stop) in
            Inr (push_item st start1 stop1 step1 K_SLICE))))"
| "multislice_elem st elem = Inl (TypeError (Invalid_item (loop_i st)))"

fun multislice_loop :: "loop_state \<Rightarrow> pyobj list \<Rightarrow> exn + loop_state" where
  "multislice_loop st [] = Inr st"
| "multislice_loop st (elem # elems) =
     (case multislice_elem st elem of
        Inl e \<Rightarrow> Inl e
      | Inr st' \<Rightarrow> multislice_loop st' elems)"

definition multislice_in_ctor :: "pyobj list \<Rightarrow> exn + multislice_in" where
  "multislice_in_ctor src =
     (case multislice_loop \<lparr>loop_i = 0, max_nrows = 0, loop_items = []\<rparr> src of
        Inl e \<Rightarrow> Inl e
      | Inr st \<Rightarrow> Inr \<lparr>items = loop_items st, min_nrows = max_nrows st\<rparr>)"

definition multislice_in_post_init_check :: "multislice_in \<Rightarrow> workframe \<Rightarrow> exn + unit" where
  "multislice_in_post_init_check nd wk =
     (if wf_nrows wk < min_nrows nd then Inl (ValueError (Min_nrows (min_nrows nd)))
      else Inr ())"

subsection \<open>\<^verbatim>\<open>multislice_in\<close>: \<^verbatim>\<open>execute\<close>\<close>

text \<open>
  The first loop of \<^verbatim>\<open>execute\<close> resolves each item against the row count, in place, and
  adds the item's count to \<^verbatim>\<open>total_count\<close>, a \<^verbatim>\<open>size_t\<close>. \<open>count_item\<close> is its body:
  the item as the loop leaves it, and the \<^verbatim>\<open>size_t\<close> added. At a slice that starts past
  the last row the body leaves by \<^verbatim>\<open>continue\<close>. The \<^verbatim>\<open>xassert\<close> of the first case is a
  check of debug builds and is not part of the model.
\<close>

definition count_item :: "int \<Rightarrow> item \<Rightarrow> item \<times> nat" where
  "count_item inrows it =
     (case item_kind it of
        K_INT \<Rightarrow>
          (let start = (if item_start it < 0 then add64 (item_start it) inrows
                        else item_start it) in
           (it\<lparr>item_start := start\<rparr>, 1))
      | K_RANGE \<Rightarrow>
          (let start = (if item_start it < 0 then add64 (item_start it) inrows
                        else item_start it);
               stop = (if item_stop it < 0 then add64 (item_stop it) inrows else item_stop it);
               icount = div64 (sub64 stop start) (item_step it) in
           (it\<lparr>item_start := start, item_stop := stop\<rparr>, to_size_t icount))
      | K_SLICE \<Rightarrow>
          (let start1 = (if item_start it < 0 then add64 (item_start it) inrows
                         else item_start it);
               start = (if start1 < 0 then 0 else start1) in
           if start > inrows then (it\<lparr>item_start := start\<rparr>, 0)
           else
             (let stop1 = (if item_stop it < 0 then add64 (item_stop it) inrows
                           else item_stop it);
                  stop2 = (if stop1 < 0 then - 1 else stop1);
                  stop = (if stop2 > inrows then inrows else stop2);
                  icount0 = (if item_step it > 0 \<and> stop > start
                             then div64 (sub64 (add64 (sub64 stop start) (item_step it)) 1)
                                    (item_step it)
                             else 0);
                  icount = (if item_step it < 0 \<and> stop < start
                            then div64 (sub64 (sub64 (sub64 start stop) (item_step it)) 1)
                                   (neg64 (item_step it))
                            else icount0) in
              (it\<lparr>item_start := start, item_stop := stop\<rparr>, to_size_t icount))))"

fun count_loop :: "int \<Rightarrow> item list \<Rightarrow> nat \<Rightarrow> item list \<times> nat" where
  "count_loop inrows [] total_count = ([], total_count)"
| "count_loop inrows (it # its) total_count =
     (case count_item inrows it of
        (it', c) \<Rightarrow>
          (case count_loop inrows its ((total_count + c) mod 2 ^ 64) of
             (its', tc) \<Rightarrow> (it' # its', tc)))"

text \<open>
  The two stepping loops of the second pass; each cell takes \<open>k\<close> as an \<^verbatim>\<open>int32_t\<close>.
  The step \<^verbatim>\<open>k += step\<close> is exact: it leaves \<^verbatim>\<open>int64_t\<close> only in a loop that has run
  to within one step of the end of the range of \<^verbatim>\<open>int64_t\<close>.
\<close>

function loop_up :: "int \<Rightarrow> int \<Rightarrow> int \<Rightarrow> int list" where
  "loop_up k stop step =
     (if step > 0 \<and> k < stop then to_int32 k # loop_up (k + step) stop step else [])"
  by pat_completeness auto
termination
  by (relation "measure (\<lambda>(k, stop, step). nat (stop - k))") auto

function loop_down :: "int \<Rightarrow> int \<Rightarrow> int \<Rightarrow> int list" where
  "loop_down k stop step =
     (if step < 0 \<and> k > stop then to_int32 k # loop_down (k + step) stop step else [])"
  by pat_completeness auto
termination
  by (relation "measure (\<lambda>(k, stop, step). nat (k - stop))") auto

declare loop_up.simps [simp del]
declare loop_down.simps [simp del]

definition fill_item :: "item \<Rightarrow> int list" where
  "fill_item it =
     (if item_kind it = K_INT then [to_int32 (item_start it)]
      else if item_step it > 0 then loop_up (item_start it) (item_stop it) (item_step it)
      else if item_step it < 0 then loop_down (item_start it) (item_stop it) (item_step it)
      else replicate (nat (item_stop it)) (to_int32 (item_start it)))"

text \<open>
  \<open>multislice_arrays\<close> gives the size of the array, \<^verbatim>\<open>total_count\<close>, and the cells the
  second loop writes, in order.
\<close>

definition multislice_arrays :: "int \<Rightarrow> item list \<Rightarrow> nat \<times> int list" where
  "multislice_arrays inrows its =
     (case count_loop inrows its 0 of
        (its', total_count) \<Rightarrow> (total_count, concat (map fill_item its')))"

definition multislice_in_execute :: "multislice_in \<Rightarrow> workframe \<Rightarrow> exn + workframe" where
  "multislice_in_execute nd wk =
     (let inrows = to_int64 (int (wf_nrows wk)) in
      case multislice_arrays inrows (items nd) of
        (total_count, indices) \<Rightarrow>
          if length indices = total_count then Inr (apply_rowindex wk (RI_ARRAY indices))
          else Inl (ArrayMismatch total_count (length indices)))"

subsection \<open>The factory and the life of a node\<close>

text \<open>
  \<open>make_node\<close> is \<^verbatim>\<open>_make\<close>: one equation for each test, in the order of the
  source (None and Ellipsis share a test). The last line of \<^verbatim>\<open>_make\<close> returns
  \<^verbatim>\<open>nullptr\<close>.
\<close>

fun make_node :: "pyobj \<Rightarrow> exn + i_node option" where
  "make_node (PySlice a b c) =
     (if is_trivial a b c then Inr (Some Allrows_in)
      else if is_numeric a b c then
        Inr (Some (Slice_in \<lparr>istart = slice_field a, istop = slice_field b,
                             istep = slice_field c, is_slice = True\<rparr>))
      else Inl (TypeError Not_integer_valued))"
| "make_node (PyBaseExpr e) = Inr (Some (Expr_in e))"
| "make_node (PyFrame dt) =
     (case frame_in_ctor dt of Inl e \<Rightarrow> Inl e | Inr d \<Rightarrow> Inr (Some (Frame_in d)))"
| "make_node (PyInt v) = Inr (Some (Onerow_in v))"
| "make_node PyNone = Inr (Some Allrows_in)"
| "make_node PyEllipsis = Inr (Some Allrows_in)"
| "make_node (PyNumpy a) =
     (case from_nparray a of Inl e \<Rightarrow> Inl e | Inr nd \<Rightarrow> Inr (Some nd))"
| "make_node (PyRange start stop step) =
     Inr (Some (Slice_in \<lparr>istart = start, istop = stop, istep = step, is_slice = False\<rparr>))"
| "make_node (PyIterable elems) =
     (case multislice_in_ctor elems of Inl e \<Rightarrow> Inl e | Inr nd \<Rightarrow> Inr (Some (Multislice_in nd)))"
| "make_node (PyBool b) = Inl (TypeError Boolean_selector)"
| "make_node (PyOther s) = Inr None"

definition i_node_make :: "pyobj \<Rightarrow> exn + i_node option" where
  "i_node_make src = make_node src"

text \<open>The virtual methods: \<^verbatim>\<open>post_init_check\<close> does nothing unless a class overrides it.\<close>

fun post_init_check :: "i_node \<Rightarrow> workframe \<Rightarrow> exn + i_node" where
  "post_init_check (Onerow_in irow) wk =
     (case onerow_in_post_init_check irow wk of Inl e \<Rightarrow> Inl e | Inr r \<Rightarrow> Inr (Onerow_in r))"
| "post_init_check (Frame_in dt) wk =
     (case frame_in_post_init_check dt wk of Inl e \<Rightarrow> Inl e | Inr u \<Rightarrow> Inr (Frame_in dt))"
| "post_init_check (Multislice_in nd) wk =
     (case multislice_in_post_init_check nd wk of
        Inl e \<Rightarrow> Inl e | Inr u \<Rightarrow> Inr (Multislice_in nd))"
| "post_init_check nd wk = Inr nd"

fun execute :: "oslice_normalize \<Rightarrow> orange_normalize \<Rightarrow> i_node \<Rightarrow> workframe \<Rightarrow> exn + workframe"
  where
  "execute sn rn Allrows_in wk = Inr wk"
| "execute sn rn (Onerow_in irow) wk = onerow_in_execute irow wk"
| "execute sn rn (Slice_in nd) wk = slice_in_execute sn rn nd wk"
| "execute sn rn (Expr_in e) wk = expr_in_execute e wk"
| "execute sn rn (Frame_in dt) wk = frame_in_execute dt wk"
| "execute sn rn (Multislice_in nd) wk = multislice_in_execute nd wk"

text \<open>
  Modelled from the spec: the life of a node after the factory is \<^verbatim>\<open>post_init_check\<close>
  and then \<^verbatim>\<open>execute\<close>, on a workframe fresh from a frame of \<open>nrows\<close> rows; the caller
  that does so is outside the source. The result is what was handed to
  \<^verbatim>\<open>apply_rowindex\<close>: one index, or none for the selection of all rows.
  \<open>resolve_selector\<close> starts from the Python object; a null node is given back as \<open>None\<close>.
\<close>

definition resolve_node ::
  "oslice_normalize \<Rightarrow> orange_normalize \<Rightarrow> nat \<Rightarrow> i_node \<Rightarrow> exn + RowIndex list" where
  "resolve_node sn rn nrows nd =
     (case post_init_check nd (fresh_workframe nrows) of
        Inl e \<Rightarrow> Inl e
      | Inr nd' \<Rightarrow>
          (case execute sn rn nd' (fresh_workframe nrows) of
             Inl e \<Rightarrow> Inl e
           | Inr wk \<Rightarrow> Inr (wf_applied wk)))"

definition resolve_selector ::
  "oslice_normalize \<Rightarrow> orange_normalize \<Rightarrow> nat \<Rightarrow> pyobj \<Rightarrow> exn + RowIndex list option" where
  "resolve_selector sn rn nrows src =
     (case i_node_make src of
        Inl e \<Rightarrow> Inl e
      | Inr None \<Rightarrow> Inr None
      | Inr (Some nd) \<Rightarrow>
          (case resolve_node sn rn nrows nd of Inl e \<Rightarrow> Inl e | Inr ris \<Rightarrow> Inr (Some ris)))"

subsection \<open>Notions the properties are stated with\<close>

text \<open>
  A selector matches no shape when it passes none of the tests of the factory. The last
  element of a range, as the constructor of \<^verbatim>\<open>multislice_in\<close> computes it, is its local
  \<^verbatim>\<open>last\<close>; the item it stores for a range has the end \<open>start + count * step\<close>.
\<close>

fun matches_no_shape :: "pyobj \<Rightarrow> bool" where
  "matches_no_shape (PyOther s) = True"
| "matches_no_shape src = False"






section \<open>Properties\<close>

subsection \<open>Conversions that do not wrap\<close>

lemma to_int64_nrows: "N < 2 ^ 63 \<Longrightarrow> to_int64 (int N) = int N"
  by (simp add: to_int64_def)

lemma to_size_t_nat: "0 \<le> k \<Longrightarrow> k < 2 ^ 64 \<Longrightarrow> to_size_t k = nat k"
  by (simp add: to_size_t_def)

lemma wrap_row:
  fixes k n :: int
  assumes "- n \<le> k" and "k < n"
  shows "k mod n = (if k < 0 then k + n else k)"
proof (cases "k < 0")
  case True
  with assms have "0 \<le> k + n" and "k + n < n" by simp_all
  then have "(k + n) mod n = k + n" by (rule mod_pos_pos_trivial)
  then show ?thesis using True by simp
next
  case False
  with assms show ?thesis by simp
qed

subsection \<open>One row\<close>

text \<open>
  Claim C6. On a frame of \<open>N\<close> rows (\<open>N\<close> a row count that \<^verbatim>\<open>int64_t\<close> holds), the
  integer selector \<open>k\<close> resolves exactly when \<open>-N \<le> k < N\<close>: the result is then the one
  index ARITHMETIC(\<open>k mod N\<close>, 1, 1), where \<open>k mod N\<close> is \<open>k + N\<close> for a negative \<open>k\<close> and
  \<open>k\<close> otherwise. For every other \<open>k\<close> the resolution raises the value error that names
  \<open>k\<close> and \<open>N\<close>.
\<close>

theorem onerow_resolution:
  assumes "N < 2 ^ 63"
  shows "resolve_selector sn rn N (PyInt k) =
     (if - int N \<le> k \<and> k < int N
      then Inr (Some [RI_ARITHMETIC (nat (k mod int N)) 1 1])
      else Inl (ValueError (Row_invalid k (int N))))
    \<and> (- int N \<le> k \<and> k < int N \<longrightarrow>
         k mod int N = (if k < 0 then k + int N else k) \<and> 0 \<le> k mod int N)"
proof -
  have inrows: "to_int64 (int N) = int N"
    using assms by (rule to_int64_nrows)
  show ?thesis
  proof (cases "- int N \<le> k \<and> k < int N")
    case False
    then show ?thesis
      by (auto simp: resolve_selector_def i_node_make_def resolve_node_def
          onerow_in_post_init_check_def fresh_workframe_def inrows)
  next
    case True
    define r where "r = (if k < 0 then k + int N else k)"
    have r: "0 \<le> r" "r < 2 ^ 64" "k mod int N = r"
      using True assms wrap_row [of "int N" k] by (auto simp: r_def)
    have post: "onerow_in_post_init_check k (fresh_workframe N) = Inr r"
      using True by (auto simp: onerow_in_post_init_check_def fresh_workframe_def inrows r_def)
    have "resolve_selector sn rn N (PyInt k) = Inr (Some [RI_ARITHMETIC (nat r) 1 1])"
      using r(1,2)
      by (simp add: resolve_selector_def i_node_make_def resolve_node_def post
          onerow_in_execute_def apply_rowindex_def to_size_t_nat)
        (simp add: fresh_workframe_def)
    then show ?thesis
      using True r by (simp add: r_def)
  qed
qed

theorem onerow_resolution_witness:
  "\<forall>sn rn. resolve_selector sn rn 5 (PyInt (- 2)) = Inr (Some [RI_ARITHMETIC 3 1 1])
     \<and> resolve_selector sn rn 5 (PyInt 5) = Inl (ValueError (Row_invalid 5 5))
     \<and> resolve_selector sn rn 5 (PyInt (- 6)) = Inl (ValueError (Row_invalid (- 6) 5))"
  using onerow_resolution [of 5 _ _ "- 2"] onerow_resolution [of 5 _ _ 5]
    onerow_resolution [of 5 _ _ "- 6"]
  by simp

subsection \<open>Frames as selectors\<close>

lemma frame_in_ctor_bool:
  "frame_in_ctor (DataTable [BoolColumn bs]) = Inr (DataTable [BoolColumn bs])"
  by (simp add: frame_in_ctor_def ncols_def)



text \<open>
  Claim C4. A frame of one boolean column, used as the selector of a frame of \<open>N\<close> rows,
  raises exactly when the column has a row count other than \<open>N\<close> (the value error names
  both counts). With \<open>N\<close> rows it resolves to the ARRAY of the positions where the mask is
  true: each such position once, in ascending order.
\<close>

theorem bool_frame_resolution:
  "resolve_selector sn rn N (PyFrame (DataTable [BoolColumn bs])) =
     (if length bs \<noteq> N then Inl (ValueError (Bool_column_nrows (length bs) N))
      else Inr (Some [RI_ARRAY (map int (filter (\<lambda>i. bs ! i) [0..<N]))]))
   \<and> sorted_wrt (<) (map int (filter (\<lambda>i. bs ! i) [0..<N]))
   \<and> set (map int (filter (\<lambda>i. bs ! i) [0..<N])) = int ` {i. i < N \<and> bs ! i}"
proof -
  have "sorted_wrt (<) (filter (\<lambda>i. bs ! i) [0..<N])"
    by (rule sorted_wrt_filter) simp
  then have asc: "sorted_wrt (<) (map int (filter (\<lambda>i. bs ! i) [0..<N]))"
    by (simp add: sorted_wrt_map)
  have res: "resolve_selector sn rn N (PyFrame (DataTable [BoolColumn bs])) =
     (if length bs \<noteq> N then Inl (ValueError (Bool_column_nrows (length bs) N))
      else Inr (Some [RI_ARRAY (map int (filter (\<lambda>i. bs ! i) [0..<N]))]))"
    by (simp add: resolve_selector_def i_node_make_def frame_in_ctor_bool resolve_node_def
        frame_in_post_init_check_def frame_in_execute_def fresh_workframe_def
        apply_rowindex_def)
  show ?thesis using asc res by auto
qed

text \<open>The mask \<open>[True, False, True]\<close> on a frame of 3 rows and on one of 4 rows.\<close>

theorem bool_frame_resolution_witness:
  "\<forall>sn rn.
     resolve_selector sn rn 3 (PyFrame (DataTable [BoolColumn [True, False, True]])) =
       Inr (Some [RI_ARRAY [0, 2]])
     \<and> resolve_selector sn rn 4 (PyFrame (DataTable [BoolColumn [True, False, True]])) =
       Inl (ValueError (Bool_column_nrows 3 4))"
  using bool_frame_resolution [of _ _ 3 "[True, False, True]"]
    bool_frame_resolution [of _ _ 4 "[True, False, True]"]
  by (simp add: upt_conv_Cons)



subsection \<open>Numpy arrays\<close>






subsection \<open>The factory\<close>

lemma make_node_null: "make_node src = Inr None \<longleftrightarrow> matches_no_shape src"
  by (cases src) (auto split: sum.splits)

text \<open>
  Claim C2, as amended. The factory returns the null node, and raises nothing, exactly for
  the selectors that match none of its shapes.
\<close>

theorem make_null_iff_no_shape:
  "i_node_make src = Inr None \<longleftrightarrow> matches_no_shape src"
  unfolding i_node_make_def by (rule make_node_null)

text \<open>The selector \<open>1.5\<close>, a float, gets the null node; the integer 3 gets a node.\<close>

theorem make_null_iff_no_shape_witness:
  "i_node_make (PyOther ''1.5'') = Inr None \<and> i_node_make (PyInt 3) \<noteq> Inr None"
  using make_null_iff_no_shape [of "PyOther ''1.5''"] make_null_iff_no_shape [of "PyInt 3"]
  by simp

text \<open>
  Claim C2 as stated fails: the float \<open>1.5\<close> matches no shape, and the factory raises no
  error for it.
\<close>

theorem unsupported_selector_not_raised:
  "matches_no_shape (PyOther ''1.5'') \<and> \<not> raises (i_node_make (PyOther ''1.5''))
   \<and> i_node_make (PyOther ''1.5'') = Inr None"
  by (simp add: i_node_make_def raises_def)

subsection \<open>Lists of indices, slices and ranges\<close>

lemmas int64_ops = add64_def sub64_def mul64_def neg64_def div64_def

lemma to_int64_id: "- (2 ^ 63) \<le> x \<Longrightarrow> x < 2 ^ 63 \<Longrightarrow> to_int64 x = x"
  by (simp add: to_int64_def)

lemma int64_small:
  "- (2 ^ 63) \<le> a + b \<Longrightarrow> a + b < 2 ^ 63 \<Longrightarrow> add64 a b = a + b"
  "- (2 ^ 63) \<le> a - b \<Longrightarrow> a - b < 2 ^ 63 \<Longrightarrow> sub64 a b = a - b"
  "- (2 ^ 63) \<le> a * b \<Longrightarrow> a * b < 2 ^ 63 \<Longrightarrow> mul64 a b = a * b"
  "- (2 ^ 63) < a \<Longrightarrow> a \<le> 2 ^ 63 \<Longrightarrow> neg64 a = - a"
  "- (2 ^ 63) \<le> cdiv a b \<Longrightarrow> cdiv a b < 2 ^ 63 \<Longrightarrow> div64 a b = cdiv a b"
  by (simp_all add: int64_ops to_int64_id)

lemma multislice_loop_append:
  "multislice_loop st (xs @ ys) =
     (case multislice_loop st xs of Inl e \<Rightarrow> Inl e | Inr st' \<Rightarrow> multislice_loop st' ys)"
  by (induction xs arbitrary: st) (auto split: sum.splits)

lemma multislice_loop_skip:
  assumes "range_count start stop step \<le> 0"
  shows "multislice_loop st (pre @ PyRange start stop step # post) =
         multislice_loop st (pre @ post)"
  using assms by (simp add: multislice_loop_append split: sum.splits)

lemma cdiv_pos_iff:
  assumes "0 < b"
  shows "0 < cdiv a b \<longleftrightarrow> b \<le> a"
proof (cases "a < 0")
  case True
  then have "cdiv a b = - (\<bar>a\<bar> div b)"
    using assms by (simp add: cdiv_def)
  moreover have "0 \<le> \<bar>a\<bar> div b"
    using assms by (simp add: pos_imp_zdiv_nonneg_iff)
  ultimately show ?thesis using True assms by simp
next
  case False
  then have "cdiv a b = a div b"
    using assms by (cases "a = 0") (simp_all add: cdiv_def)
  then show ?thesis using assms False by (simp add: pos_imp_zdiv_pos_iff)
qed

lemma cdiv_abs_le: "\<bar>cdiv a b\<bar> \<le> \<bar>a\<bar>"
proof -
  have q: "0 \<le> \<bar>a\<bar> div \<bar>b\<bar>"
    by (simp add: div_int_pos_iff)
  have "\<bar>cdiv a b\<bar> = \<bar>sgn a\<bar> * \<bar>sgn b\<bar> * (\<bar>a\<bar> div \<bar>b\<bar>)"
    using q by (simp add: cdiv_def abs_mult)
  also have "\<dots> \<le> \<bar>a\<bar> div \<bar>b\<bar>"
    using q by (cases "a = 0"; cases "b = 0") (simp_all add: abs_sgn_eq)
  also have "\<dots> \<le> \<bar>a\<bar>"
    by (cases "a = 0") (simp_all add: int_div_le_self)
  finally show ?thesis .
qed

text \<open>
  Where the bounds of a range are small enough for the count to be computed without
  overflow, the count of the constructor is the quotient of the exact numbers, and it is 0
  or less exactly for the ranges that have no element.
\<close>

lemma range_count_exact:
  assumes "\<bar>start\<bar> \<le> 2 ^ 61" and "\<bar>stop\<bar> \<le> 2 ^ 61" and "\<bar>step\<bar> \<le> 2 ^ 61"
  shows "range_count start stop step =
     (if step > 0 then cdiv (stop - start + step - 1) step
      else cdiv (start - stop - step - 1) (- step))"
proof -
  have up: "\<bar>stop - start + step - 1\<bar> < 2 ^ 63" "\<bar>stop - start + step\<bar> < 2 ^ 63"
      "\<bar>stop - start\<bar> < 2 ^ 63"
    using assms by simp_all
  have down: "\<bar>start - stop - step - 1\<bar> < 2 ^ 63" "\<bar>start - stop - step\<bar> < 2 ^ 63"
      "\<bar>start - stop\<bar> < 2 ^ 63" "\<bar>- step\<bar> < 2 ^ 63"
    using assms by simp_all
  have q1: "\<bar>cdiv (stop - start + step - 1) step\<bar> < 2 ^ 63"
    using cdiv_abs_le [of "stop - start + step - 1" step] up(1) by linarith
  have q2: "\<bar>cdiv (start - stop - step - 1) (- step)\<bar> < 2 ^ 63"
    using cdiv_abs_le [of "start - stop - step - 1" "- step"] down(1) by linarith
  have id: "to_int64 x = x" if "\<bar>x\<bar> < 2 ^ 63" for x
    using that by (intro to_int64_id) linarith+
  have e: "to_int64 (stop - start) = stop - start"
      "to_int64 (stop - start + step) = stop - start + step"
      "to_int64 (stop - start + step - 1) = stop - start + step - 1"
      "to_int64 (cdiv (stop - start + step - 1) step) = cdiv (stop - start + step - 1) step"
    using up q1 by (simp_all only: id)
  have f: "to_int64 (start - stop) = start - stop"
      "to_int64 (start - stop - step) = start - stop - step"
      "to_int64 (start - stop - step - 1) = start - stop - step - 1"
      "to_int64 (- step) = - step"
      "to_int64 (cdiv (start - stop - step - 1) (- step)) =
         cdiv (start - stop - step - 1) (- step)"
    using down q2 by (simp_all only: id)
  show ?thesis
    by (simp only: range_count_def int64_ops e f)
qed

lemma range_count_empty_iff:
  assumes "step \<noteq> 0"
    and "\<bar>start\<bar> \<le> 2 ^ 61" and "\<bar>stop\<bar> \<le> 2 ^ 61" and "\<bar>step\<bar> \<le> 2 ^ 61"
  shows "range_count start stop step \<le> 0 \<longleftrightarrow>
         (if step > 0 then stop \<le> start else start \<le> stop)"
proof (cases "step > 0")
  case True
  then show ?thesis
    using cdiv_pos_iff [of step "stop - start + step - 1"]
    by (auto simp: range_count_exact [OF assms(2-4)])
next
  case False
  with assms(1) have "0 < - step" by simp
  then show ?thesis
    using cdiv_pos_iff [of "- step" "start - stop - step - 1"] False
    by (auto simp: range_count_exact [OF assms(2-4)])
qed



lemma example_ctor:
  "multislice_in_ctor [PyInt 5, PySlice (SInt 0) (SInt 3) SNone, PyRange 2 0 (- 1)] =
     Inr \<lparr>items = [\<lparr>item_start = 5, item_stop = 0, item_step = 0, item_kind = K_INT\<rparr>,
                   \<lparr>item_start = 0, item_stop = 3, item_step = 1, item_kind = K_SLICE\<rparr>,
                   \<lparr>item_start = 2, item_stop = 0, item_step = - 1, item_kind = K_RANGE\<rparr>],
          min_nrows = 6\<rparr>"
  by (simp add: multislice_in_ctor_def push_item_def range_count_def int64_small cdiv_def
      to_size_t_def is_numeric_def oslice_NA_def oslice_MAX_def Let_def)

lemma example_arrays:
  "multislice_arrays 10
     [\<lparr>item_start = 5, item_stop = 0, item_step = 0, item_kind = K_INT\<rparr>,
      \<lparr>item_start = 0, item_stop = 3, item_step = 1, item_kind = K_SLICE\<rparr>,
      \<lparr>item_start = 2, item_stop = 0, item_step = - 1, item_kind = K_RANGE\<rparr>] =
     (6, [5, 0, 1, 2, 2, 1])"
  by (simp add: multislice_arrays_def count_item_def int64_small cdiv_def
      to_size_t_def fill_item_def loop_up.simps loop_down.simps to_int32_def Let_def)

text \<open>
  Claim C7. The list \<open>[5, slice(0, 3), range(2, 0, -1)]\<close> on a frame of 10 rows resolves
  to the ARRAY \<open>[5, 0, 1, 2, 2, 1]\<close>.
\<close>

theorem multislice_example:
  "resolve_selector sn rn 10
     (PyIterable [PyInt 5, PySlice (SInt 0) (SInt 3) SNone, PyRange 2 0 (- 1)]) =
   Inr (Some [RI_ARRAY [5, 0, 1, 2, 2, 1]])"
  by (simp add: resolve_selector_def i_node_make_def example_ctor resolve_node_def
      multislice_in_post_init_check_def fresh_workframe_def multislice_in_execute_def
      to_int64_def example_arrays apply_rowindex_def)

text \<open>
  Claim C3, as the code has it. \<open>range(2, -1, -1)\<close> has the elements 2, 1, 0: the
  constructor counts 3, accepts the range (first and last are not negative), stores the
  end \<open>2 + 3 * (-1) = -1\<close> and asks for 3 rows. On a frame of 10 rows \<^verbatim>\<open>execute\<close> takes
  the stored end \<open>-1\<close> for a negative index and adds 10 to it: the count of the item is
  \<open>(9 - 2) / (-1) = -7\<close>, added to \<^verbatim>\<open>total_count\<close> as the \<^verbatim>\<open>size_t\<close>
  \<open>2^64 - 7\<close>, and the loop from 2 down to 9 writes no cell. \<open>range(-3, 0)\<close>, with the
  elements -3, -2, -1, fares alike: its end 0 stays 0 while its start becomes 7.
\<close>

theorem multislice_range_end_miscounted:
  "range_count 2 (- 1) (- 1) = 3
   \<and> multislice_in_ctor [PyRange 2 (- 1) (- 1)] =
       Inr \<lparr>items = [\<lparr>item_start = 2, item_stop = - 1, item_step = - 1,
                       item_kind = K_RANGE\<rparr>],
            min_nrows = 3\<rparr>
   \<and> multislice_in_post_init_check
        \<lparr>items = [\<lparr>item_start = 2, item_stop = - 1, item_step = - 1, item_kind = K_RANGE\<rparr>],
          min_nrows = 3\<rparr> (fresh_workframe 10) = Inr ()
   \<and> multislice_arrays 10
        [\<lparr>item_start = 2, item_stop = - 1, item_step = - 1, item_kind = K_RANGE\<rparr>] =
       (18446744073709551609, [])
   \<and> range_count (- 3) 0 1 = 3
   \<and> multislice_in_ctor [PyRange (- 3) 0 1] =
       Inr \<lparr>items = [\<lparr>item_start = - 3, item_stop = 0, item_step = 1, item_kind = K_RANGE\<rparr>],
            min_nrows = 3\<rparr>
   \<and> multislice_arrays 10
        [\<lparr>item_start = - 3, item_stop = 0, item_step = 1, item_kind = K_RANGE\<rparr>] =
       (18446744073709551609, [])"
  by (simp add: multislice_in_ctor_def push_item_def range_count_def int64_small cdiv_def
      to_size_t_def multislice_in_post_init_check_def fresh_workframe_def
      multislice_arrays_def count_item_def fill_item_def loop_down.simps loop_up.simps
      Let_def)

text \<open>
  Claim C8. A range of a list whose computed count is 0 or less (its step is not 0, as
  for every Python range) contributes nothing: the list resolves as the list without the
  range does, on every frame, to the same index or to the same error. Among the ranges
  whose bounds and step are at most \<open>2^61\<close> in absolute value, these are the ranges
  without an element (\<open>range_count_empty_iff\<close>).
\<close>

theorem empty_range_contributes_nothing:
  assumes "step \<noteq> 0" and "range_count start stop step \<le> 0"
  shows "resolve_selector sn rn N (PyIterable (pre @ PyRange start stop step # post)) =
         resolve_selector sn rn N (PyIterable (pre @ post))"
proof -
  have "multislice_in_ctor (pre @ PyRange start stop step # post) =
        multislice_in_ctor (pre @ post)"
    using assms(2) by (simp add: multislice_in_ctor_def multislice_loop_skip)
  then show ?thesis
    by (simp add: resolve_selector_def i_node_make_def)
qed

text \<open>
  \<open>range(5, 5)\<close> between two indices, and \<open>range(5, 0)\<close> alone, which resolves to the
  empty ARRAY on a frame of 3 rows.
\<close>

theorem empty_range_contributes_nothing_witness:
  "\<forall>sn rn N.
     resolve_selector sn rn N (PyIterable [PyInt 1, PyRange 5 5 1, PyInt 0]) =
       resolve_selector sn rn N (PyIterable [PyInt 1, PyInt 0])
     \<and> resolve_selector sn rn N (PyIterable [PyRange 5 0 1]) =
       resolve_selector sn rn N (PyIterable [])
     \<and> resolve_selector sn rn 3 (PyIterable [PyRange 5 0 1]) = Inr (Some [RI_ARRAY []])"
  using empty_range_contributes_nothing [of 1 5 5 _ _ _ "[PyInt 1]" "[PyInt 0]"]
    empty_range_contributes_nothing [of 1 5 0 _ _ _ "[]" "[]"]
  by (simp add: range_count_def int64_small cdiv_def)
    (simp add: resolve_selector_def i_node_make_def multislice_in_ctor_def resolve_node_def
      multislice_in_post_init_check_def multislice_in_execute_def multislice_arrays_def
      fresh_workframe_def apply_rowindex_def)




end
